theory Spec2Isabelle
  imports
    Complex_Main
    "HOL-Library.Char_ord"
    "HOL-Library.List_Lexorder"
    "HOL-Library.Product_Lexorder"
begin

section \<open>JavaScript values\<close>

text \<open>
  The configuration store keeps \<^verbatim>\<open>value\<close> and \<^verbatim>\<open>defaultValue\<close> as
  \<^verbatim>\<open>Schema.Types.Mixed\<close>, and request bodies are parsed JSON, so the model needs the
  dynamic values of the language. A number is a double: every finite double is a rational
  and comparisons of doubles are comparisons of these rationals, so \<open>Fin\<close> carries a
  \<^typ>\<open>rat\<close>; the three non-finite doubles are constructors of their own. A string is a
  list of code units (one \<^typ>\<open>char\<close> per unit), so \<^const>\<open>length\<close> is the
  \<^verbatim>\<open>.length\<close> of the source. \<open>JUndefined\<close> is \<^verbatim>\<open>undefined\<close>: an absent body field
  or an unset document path.
\<close>

datatype jsnum = NaN | NegInf | Fin rat | PosInf

datatype jsval =
    JUndefined
  | JNull
  | JBool bool
  | JNum jsnum
  | JStr string
  | JArr "jsval list"
  | JObj "(string \<times> jsval) list"

text \<open>A thrown error object: its \<^verbatim>\<open>name\<close> and its \<^verbatim>\<open>message\<close>.\<close>

datatype exn = Exn string string

text \<open>The relational operator \<^verbatim>\<open><\<close> on numbers: false as soon as one side is NaN.\<close>

fun num_lt :: "jsnum \<Rightarrow> jsnum \<Rightarrow> bool" where
  "num_lt NaN _ = False"
| "num_lt _ NaN = False"
| "num_lt PosInf _ = False"
| "num_lt _ NegInf = False"
| "num_lt NegInf _ = True"
| "num_lt _ PosInf = True"
| "num_lt (Fin a) (Fin b) = (a < b)"

text \<open>\<^verbatim>\<open>Boolean(v)\<close>, and the truthiness test of \<^verbatim>\<open>if (v)\<close> and \<^verbatim>\<open>!v\<close>.\<close>

fun truthy :: "jsval \<Rightarrow> bool" where
  "truthy JUndefined = False"
| "truthy JNull = False"
| "truthy (JBool b) = b"
| "truthy (JNum n) = (n \<noteq> NaN \<and> n \<noteq> Fin 0)"
| "truthy (JStr s) = (s \<noteq> [])"
| "truthy (JArr xs) = True"
| "truthy (JObj kvs) = True"

text \<open>\<^verbatim>\<open>Array.prototype.join\<close> on elements that are already strings.\<close>

fun join :: "string \<Rightarrow> string list \<Rightarrow> string" where
  "join sep [] = []"
| "join sep [x] = x"
| "join sep (x # y # ys) = x @ sep @ join sep (y # ys)"

text \<open>
  \<^verbatim>\<open>String.prototype.trim\<close>, which the schema option \<^verbatim>\<open>trim: true\<close> applies when a
  path is set: white space and line terminators in the range of \<^typ>\<open>char\<close>.
\<close>

definition isSpace :: "char \<Rightarrow> bool" where
  "isSpace c = (c \<in> set [CHR 0x09, CHR 0x0A, CHR 0x0B, CHR 0x0C, CHR 0x0D, CHR 0x20, CHR 0xA0])"

definition trim :: "string \<Rightarrow> string" where
  "trim s = rev (dropWhile isSpace (rev (dropWhile isSpace s)))"

subsection \<open>Regular expressions\<close>

text \<open>
  A compiled pattern, for the part of the pattern language made of characters, classes of
  character ranges, the anchors \<^verbatim>\<open>^\<close> and \<^verbatim>\<open>$\<close>, sequence, alternative and the star.
  \<open>matchAt r s i j\<close> says that \<open>r\<close> matches the part of \<open>s\<close> from index \<open>i\<close> up to
  index \<open>j\<close>; the anchors look at the position in the whole subject.
\<close>

datatype regex =
    Eps
  | Chr char
  | OneOf "(char \<times> char) list"
  | Bol
  | Eol
  | Seq regex regex
  | Alt regex regex
  | Star regex

function matchAt :: "regex \<Rightarrow> string \<Rightarrow> nat \<Rightarrow> nat \<Rightarrow> bool" where
  "matchAt Eps s i j = (i = j)"
| "matchAt (Chr c) s i j = (i < length s \<and> s ! i = c \<and> j = Suc i)"
| "matchAt (OneOf rs) s i j =
     (i < length s \<and> list_ex (\<lambda>r. fst r \<le> s ! i \<and> s ! i \<le> snd r) rs \<and> j = Suc i)"
| "matchAt Bol s i j = (i = j \<and> i = 0)"
| "matchAt Eol s i j = (i = j \<and> i = length s)"
| "matchAt (Seq a b) s i j = list_ex (\<lambda>k. matchAt a s i k \<and> matchAt b s k j) [i..<Suc j]"
| "matchAt (Alt a b) s i j = (matchAt a s i j \<or> matchAt b s i j)"
| "matchAt (Star a) s i j =
     (i = j \<or> list_ex (\<lambda>k. matchAt a s i k \<and> matchAt (Star a) s k j) [Suc i..<Suc j])"
  by pat_completeness auto
termination
  by (relation "measures [\<lambda>(r, s, i, j). size r, \<lambda>(r, s, i, j). j - i]") auto

text \<open>
  \<^verbatim>\<open>RegExp.prototype.test\<close> without the global flag searches the subject for a match
  starting at any index; \<open>fullMatch\<close> is the stronger notion that the pattern matches the
  subject from its first to its last code unit.
\<close>

definition regexTest :: "regex \<Rightarrow> string \<Rightarrow> bool" where
  "regexTest r s =
     list_ex (\<lambda>i. list_ex (\<lambda>j. matchAt r s i j) [i..<Suc (length s)]) [0..<Suc (length s)]"


subsection \<open>Builtins of the runtime and of the libraries\<close>

text \<open>
  The repository calls builtins that it does not define. They are the fields of a
  \<open>runtime\<close>, and every theorem below holds for every runtime:
  \<^item> \<open>strToNum\<close>: \<^verbatim>\<open>Number(s)\<close> on a string;
  \<^item> \<open>numToStr\<close>: \<^verbatim>\<open>String(n)\<close> on a number;
  \<^item> \<open>regExp\<close>: \<^verbatim>\<open>new RegExp(p)\<close>, the compiled pattern or the message of the
    SyntaxError it throws;
  \<^item> \<open>jsonParse\<close>: \<^verbatim>\<open>JSON.parse(s)\<close>, the value or the message of the SyntaxError;
  \<^item> \<open>notEmpty\<close>: the request validator \<^verbatim>\<open>notEmpty()\<close> of express-validator;
  \<^item> \<open>includes\<close>: \<^verbatim>\<open>validation.options.includes(v)\<close> on the document's array;
  \<^item> \<open>validationMessage\<close>: the message of the ValidationError that the document
    validation of the object mapper raises for a list of failing paths.
\<close>

record runtime =
  strToNum :: "string \<Rightarrow> jsnum"
  numToStr :: "jsnum \<Rightarrow> string"
  regExp :: "string \<Rightarrow> string + regex"
  jsonParse :: "string \<Rightarrow> string + jsval"
  notEmpty :: "jsval \<Rightarrow> bool"
  "includes" :: "string list \<Rightarrow> jsval \<Rightarrow> bool"
  validationMessage :: "string list \<Rightarrow> string"

text \<open>
  \<^verbatim>\<open>String(v)\<close>. An array is joined with commas, \<^verbatim>\<open>null\<close> and \<^verbatim>\<open>undefined\<close>
  elements giving the empty string; a plain object gives \<^verbatim>\<open>[object Object]\<close>.
\<close>

fun toString :: "runtime \<Rightarrow> jsval \<Rightarrow> string" where
  "toString rt JUndefined = ''undefined''"
| "toString rt JNull = ''null''"
| "toString rt (JBool b) = (if b then ''true'' else ''false'')"
| "toString rt (JNum n) = numToStr rt n"
| "toString rt (JStr s) = s"
| "toString rt (JArr xs) =
     join '','' (map (\<lambda>x. if x = JUndefined \<or> x = JNull then [] else toString rt x) xs)"
| "toString rt (JObj kvs) = ''[object Object]''"

text \<open>
  \<^verbatim>\<open>Array.prototype.join\<close> with a separator: each element through \<^verbatim>\<open>String\<close>, except
  \<^verbatim>\<open>null\<close> and \<^verbatim>\<open>undefined\<close>.
\<close>

definition joinValues :: "runtime \<Rightarrow> string \<Rightarrow> jsval list \<Rightarrow> string" where
  "joinValues rt sep xs =
     join sep (map (\<lambda>x. if x = JUndefined \<or> x = JNull then [] else toString rt x) xs)"

text \<open>\<^verbatim>\<open>Number(v)\<close>. An array goes through its string; a plain object is NaN.\<close>

fun toNumber :: "runtime \<Rightarrow> jsval \<Rightarrow> jsnum" where
  "toNumber rt JUndefined = NaN"
| "toNumber rt JNull = Fin 0"
| "toNumber rt (JBool b) = (if b then Fin 1 else Fin 0)"
| "toNumber rt (JNum n) = n"
| "toNumber rt (JStr s) = strToNum rt s"
| "toNumber rt (JArr xs) = strToNum rt (toString rt (JArr xs))"
| "toNumber rt (JObj kvs) = NaN"

section \<open>The configuration model (backend/models/Configuration.js)\<close>

datatype cfgType = TString | TNumber | TBoolean | TArray | TObject | TJson

text \<open>
  The nested path \<^verbatim>\<open>validation\<close>. \<open>None\<close> is an unset (\<^verbatim>\<open>undefined\<close>) path. The
  object mapper always materialises the nested object itself, so the early return
  \<^verbatim>\<open>if (!validation)\<close> of \<^verbatim>\<open>validateValue\<close> is never taken and has no branch here.
\<close>

record validationRules =
  min_v :: "jsnum option"
  max_v :: "jsnum option"
  pattern :: "string option"
  options :: "string list option"
  required :: bool

type_synonym objectId = string

text \<open>
  A stored document. \<open>defaultValue\<close> is \<open>JUndefined\<close> when none is configured.
  \<open>version\<close> is a counter that stays far below \<open>2^53\<close>, where adding one to a double
  is exact, so it is a natural number.
\<close>

record configuration =
  key :: string
  "value" :: jsval
  type :: cfgType
  category :: string
  description :: string
  isPublic :: bool
  isEditable :: bool
  validation :: validationRules
  defaultValue :: jsval
  lastModifiedBy :: objectId
  tags :: "string list"
  version :: nat

subsection \<open>formattedValue\<close>

definition formattedValue :: "runtime \<Rightarrow> configuration \<Rightarrow> exn + jsval" where
  "formattedValue rt this =
     (case type this of
        TJson \<Rightarrow>
          (case value this of
             JStr s \<Rightarrow>
               (case jsonParse rt s of
                  Inl msg \<Rightarrow> Inl (Exn ''SyntaxError'' msg)
                | Inr v \<Rightarrow> Inr v)
           | v \<Rightarrow> Inr v)
      | TArray \<Rightarrow> (case value this of JArr xs \<Rightarrow> Inr (JArr xs) | _ \<Rightarrow> Inr (JArr []))
      | TNumber \<Rightarrow> Inr (JNum (toNumber rt (value this)))
      | TBoolean \<Rightarrow> Inr (JBool (truthy (value this)))
      | _ \<Rightarrow> Inr (JStr (toString rt (value this))))"

subsection \<open>validateValue\<close>

record vresult =
  isValid :: bool
  errors :: "string list"

definition requiredErrors :: "validationRules \<Rightarrow> jsval \<Rightarrow> string list" where
  "requiredErrors vd v =
     (if required vd \<and> (v = JNull \<or> v = JUndefined \<or> v = JStr [])
      then [''This field is required''] else [])"

definition numberErrors :: "runtime \<Rightarrow> validationRules \<Rightarrow> jsval \<Rightarrow> string list" where
  "numberErrors rt vd v =
     (let numValue = toNumber rt v in
      if numValue = NaN then [''Value must be a valid number'']
      else
        (case min_v vd of
           Some m \<Rightarrow>
             if num_lt numValue m then [''Value must be at least '' @ numToStr rt m] else []
         | None \<Rightarrow> []) @
        (case max_v vd of
           Some m \<Rightarrow>
             if num_lt m numValue then [''Value must be at most '' @ numToStr rt m] else []
         | None \<Rightarrow> []))"

definition lengthErrors :: "runtime \<Rightarrow> validationRules \<Rightarrow> string \<Rightarrow> string list" where
  "lengthErrors rt vd strValue =
     (case min_v vd of
        Some m \<Rightarrow>
          if num_lt (Fin (of_nat (length strValue))) m
          then [''Value must be at least '' @ numToStr rt m @ '' characters''] else []
      | None \<Rightarrow> []) @
     (case max_v vd of
        Some m \<Rightarrow>
          if num_lt m (Fin (of_nat (length strValue)))
          then [''Value must be at most '' @ numToStr rt m @ '' characters''] else []
      | None \<Rightarrow> [])"

text \<open>
  \<^verbatim>\<open>validation.pattern && !new RegExp(validation.pattern).test(strValue)\<close>: an unset or
  empty pattern is falsy and skips the rule; a pattern that does not compile throws.
\<close>

definition patternErrors :: "runtime \<Rightarrow> validationRules \<Rightarrow> string \<Rightarrow> exn + string list" where
  "patternErrors rt vd strValue =
     (case pattern vd of
        None \<Rightarrow> Inr []
      | Some p \<Rightarrow>
          if p = [] then Inr []
          else
            (case regExp rt p of
               Inl msg \<Rightarrow> Inl (Exn ''SyntaxError'' msg)
             | Inr r \<Rightarrow>
                 if \<not> regexTest r strValue
                 then Inr [''Value does not match required pattern''] else Inr []))"

definition stringErrors :: "runtime \<Rightarrow> validationRules \<Rightarrow> jsval \<Rightarrow> exn + string list" where
  "stringErrors rt vd v =
     (let strValue = toString rt v in
      case patternErrors rt vd strValue of
        Inl e \<Rightarrow> Inl e
      | Inr es \<Rightarrow> Inr (lengthErrors rt vd strValue @ es))"

definition arrayErrors :: "runtime \<Rightarrow> string list \<Rightarrow> jsval \<Rightarrow> string list" where
  "arrayErrors rt opts v =
     (case v of
        JArr xs \<Rightarrow>
          (let invalidOptions = filter (\<lambda>x. \<not> includes rt opts x) xs in
           if length invalidOptions > 0
           then [''Invalid options: '' @ joinValues rt '', '' invalidOptions] else [])
      | _ \<Rightarrow> [''Value must be an array''])"

definition validateValue :: "runtime \<Rightarrow> configuration \<Rightarrow> jsval \<Rightarrow> exn + vresult" where
  "validateValue rt this v =
     (let vd = validation this;
          e1 = requiredErrors vd v;
          e2 = (if type this = TNumber then numberErrors rt vd v else [])
      in case (if type this = TString then stringErrors rt vd v else Inr []) of
           Inl e \<Rightarrow> Inl e
         | Inr e3 \<Rightarrow>
             (let e4 = (case options vd of
                          Some opts \<Rightarrow> if type this = TArray then arrayErrors rt opts v else []
                        | None \<Rightarrow> []);
                  es = e1 @ e2 @ e3 @ e4
              in Inr \<lparr>isValid = (length es = 0), errors = es\<rparr>))"

subsection \<open>Saving a document\<close>

text \<open>
  \<^verbatim>\<open>this.isModified('value')\<close>. Assigning a path marks it modified unless the new value
  is deeply equal to the prior one; the deep comparison is structural, except that it
  compares numbers with \<^verbatim>\<open>===\<close>, under which NaN differs from itself.
\<close>

fun hasNaN :: "jsval \<Rightarrow> bool" where
  "hasNaN (JNum n) = (n = NaN)"
| "hasNaN (JArr xs) = list_ex hasNaN xs"
| "hasNaN (JObj kvs) = list_ex (\<lambda>kv. hasNaN (snd kv)) kvs"
| "hasNaN _ = False"

definition deepEqual :: "jsval \<Rightarrow> jsval \<Rightarrow> bool" where
  "deepEqual a b = (a = b \<and> \<not> hasNaN a)"

definition isModified :: "configuration \<Rightarrow> configuration \<Rightarrow> bool" where
  "isModified prior this = (\<not> deepEqual (value this) (value prior))"

definition categories :: "string list" where
  "categories =
     [''system'', ''course'', ''user'', ''assignment'', ''attendance'', ''notification'',
      ''email'', ''file_upload'', ''security'', ''ui'', ''analytics'']"


text \<open>
  The validators that the schema declares and that run before every save, ahead of the
  hook below: \<^verbatim>\<open>required\<close> on \<^verbatim>\<open>key\<close>, \<^verbatim>\<open>value\<close> and \<^verbatim>\<open>description\<close>, and the
  \<^verbatim>\<open>enum\<close> of \<^verbatim>\<open>category\<close>. The result is the list of failing paths. (\<^verbatim>\<open>type\<close> and
  \<^verbatim>\<open>lastModifiedBy\<close> cannot fail: they are typed here.)
\<close>

definition schemaErrors :: "configuration \<Rightarrow> string list" where
  "schemaErrors this =
     (if key this = [] then [''key''] else []) @
     (if value this = JNull \<or> value this = JUndefined then [''value''] else []) @
     (if category this \<notin> set categories then [''category''] else []) @
     (if description this = [] then [''description''] else [])"

text \<open>The hook \<^verbatim>\<open>ConfigurationSchema.pre('save')\<close>; \<open>modified\<close> is \<^verbatim>\<open>this.isModified('value')\<close>.\<close>

definition preSave :: "runtime \<Rightarrow> bool \<Rightarrow> configuration \<Rightarrow> exn option" where
  "preSave rt modified this =
     (if modified then
        (case validateValue rt this (value this) of
           Inl e \<Rightarrow> Some e
         | Inr result \<Rightarrow>
             if \<not> isValid result
             then Some (Exn ''Error'' (''Validation failed: '' @ join '', '' (errors result)))
             else None)
      else None)"

text \<open>
  The collection is the list of its documents, and \<open>lookup\<close> gives the first document
  stored under a key. \<^verbatim>\<open>Configuration.findOne({ key })\<close> casts its filter through the
  schema first, and the setter \<^verbatim>\<open>trim: true\<close> of \<^verbatim>\<open>key\<close> trims the key asked for. A
  handler never assigns \<^verbatim>\<open>key\<close>, so writing a loaded document back (by its \<^verbatim>\<open>_id\<close>)
  replaces the first document with its key, and \<^verbatim>\<open>findByIdAndDelete\<close> removes that one.
\<close>

type_synonym store = "configuration list"

definition lookup :: "string \<Rightarrow> store \<Rightarrow> configuration option" where
  "lookup k db = find (\<lambda>c. key c = k) db"

definition findOne :: "string \<Rightarrow> store \<Rightarrow> configuration option" where
  "findOne k db = lookup (trim k) db"

fun replaceDoc :: "configuration \<Rightarrow> store \<Rightarrow> store" where
  "replaceDoc d [] = []"
| "replaceDoc d (c # cs) = (if key c = key d then d # cs else c # replaceDoc d cs)"

fun deleteDoc :: "string \<Rightarrow> store \<Rightarrow> store" where
  "deleteDoc k [] = []"
| "deleteDoc k (c # cs) = (if key c = k then cs else c # deleteDoc k cs)"

text \<open>
  \<^verbatim>\<open>configuration.save()\<close> on a loaded document \<open>prior\<close> that the handler changed into
  \<open>this\<close>: the schema validators, then the hook, then the write.
\<close>

definition save :: "runtime \<Rightarrow> configuration \<Rightarrow> configuration \<Rightarrow> store \<Rightarrow> exn + store" where
  "save rt prior this db =
     (case schemaErrors this of
        p # ps \<Rightarrow> Inl (Exn ''ValidationError'' (validationMessage rt (p # ps)))
      | [] \<Rightarrow>
          (case preSave rt (isModified prior this) this of
             Some e \<Rightarrow> Inl e
           | None \<Rightarrow> Inr (replaceDoc this db)))"


section \<open>The configuration routes\<close>

text \<open>
  A response is what the handler sends:
  \<^item> \<open>Message n m\<close>: status \<open>n\<close> with body \<^verbatim>\<open>{ message: m }\<close>;
  \<^item> \<open>RequestErrors\<close>: status 400 with \<^verbatim>\<open>{ errors: errors.array() }\<close>, the list of the
    request validators;
  \<^item> \<open>ValidationFailed es\<close>: status 400 with \<^verbatim>\<open>{ message: 'Validation failed', errors: es }\<close>;
  \<^item> \<open>WithConfiguration n m c\<close>: status \<open>n\<close> with \<^verbatim>\<open>{ message: m, configuration: c }\<close>;
  \<^item> \<open>BulkSummary m results errors\<close>: status 200 with the message, the keys of
    \<^verbatim>\<open>results\<close> (each entry is \<^verbatim>\<open>{ key, success: true }\<close>) and the \<^verbatim>\<open>{ key, error }\<close>
    entries of \<^verbatim>\<open>errors\<close>;
  \<^item> \<open>PublicObject ps\<close>: status 200 with a plain object, given as the list of its own
    properties.
\<close>

datatype response =
    Message nat string
  | RequestErrors
  | ValidationFailed "string list"
  | WithConfiguration nat string configuration
  | BulkSummary string "string list" "(string \<times> string) list"
  | PublicObject "(string \<times> jsval) list"

text \<open>
  \<^verbatim>\<open>res.status(n).json({ message: m, configuration })\<close>. Serialising the document reads
  its virtuals (\<^verbatim>\<open>toJSON: { virtuals: true }\<close>), so the getter \<^verbatim>\<open>formattedValue\<close> runs,
  and what it throws is thrown inside the \<^verbatim>\<open>try\<close> of the handler, after the save.
\<close>

definition respond :: "runtime \<Rightarrow> nat \<Rightarrow> string \<Rightarrow> configuration \<Rightarrow> exn + response" where
  "respond rt n m configuration =
     (case formattedValue rt configuration of
        Inl e \<Rightarrow> Inl e
      | Inr v \<Rightarrow> Inr (WithConfiguration n m configuration))"

record user =
  userId :: objectId
  role :: string

text \<open>
  The middlewares \<^verbatim>\<open>auth\<close> and \<^verbatim>\<open>authorize(...roles)\<close>. The outcome of \<^verbatim>\<open>auth\<close> is
  either the message of its 401 response or the user it loaded.
\<close>

definition authorize :: "string list \<Rightarrow> string + user \<Rightarrow> response + user" where
  "authorize roles caller =
     (case caller of
        Inl m \<Rightarrow> Inl (Message 401 m)
      | Inr u \<Rightarrow>
          if role u \<notin> set roles
          then Inl (Message 403 (''Access denied. Required role: '' @ join '' or '' roles))
          else Inr u)"

subsection \<open>PUT /:key\<close>

text \<open>
  The body of the request. \<open>body_value\<close> is \<open>JUndefined\<close> when the field is absent; the
  other fields are absent when \<open>None\<close>.
\<close>

record updateBody =
  body_value :: jsval
  body_description :: "string option"
  body_isPublic :: "bool option"
  body_tags :: "string list option"

text \<open>The chain \<^verbatim>\<open>body('value').optional().notEmpty()\<close>, \<^verbatim>\<open>body('description').optional().notEmpty()\<close>.\<close>

definition updateChecks :: "runtime \<Rightarrow> updateBody \<Rightarrow> bool" where
  "updateChecks rt b =
     ((body_value b = JUndefined \<or> notEmpty rt (body_value b)) \<and>
      (case body_description b of None \<Rightarrow> True | Some d \<Rightarrow> notEmpty rt (JStr d)))"

definition updateCatch :: "exn \<Rightarrow> response" where
  "updateCatch e =
     (case e of Exn name message \<Rightarrow>
        if name = ''ValidationError'' then Message 400 message
        else Message 500 ''Server error while updating configuration'')"

definition updateFields :: "updateBody \<Rightarrow> objectId \<Rightarrow> configuration \<Rightarrow> configuration" where
  "updateFields b uid c =
     (let c1 = (case body_description b of None \<Rightarrow> c | Some d \<Rightarrow> c\<lparr>description := trim d\<rparr>);
          c2 = (case body_isPublic b of None \<Rightarrow> c1 | Some p \<Rightarrow> c1\<lparr>isPublic := p\<rparr>);
          c3 = (case body_tags b of None \<Rightarrow> c2 | Some t \<Rightarrow> c2\<lparr>tags := t\<rparr>)
      in c3\<lparr>lastModifiedBy := uid, version := version c3 + 1\<rparr>)"

definition updateByKey ::
  "runtime \<Rightarrow> string + user \<Rightarrow> string \<Rightarrow> updateBody \<Rightarrow> store \<Rightarrow> store \<times> response" where
  "updateByKey rt caller k b db =
     (case authorize [''admin''] caller of
        Inl r \<Rightarrow> (db, r)
      | Inr u \<Rightarrow>
          if \<not> updateChecks rt b then (db, RequestErrors)
          else
            (case findOne k db of
               None \<Rightarrow> (db, Message 404 ''Configuration not found'')
             | Some configuration \<Rightarrow>
                 if \<not> isEditable configuration
                 then (db, Message 400 ''This configuration is not editable'')
                 else
                   (case (if body_value b \<noteq> JUndefined then
                            (case validateValue rt configuration (body_value b) of
                               Inl e \<Rightarrow> Inl (updateCatch e)
                             | Inr result \<Rightarrow>
                                 if \<not> isValid result
                                 then Inl (ValidationFailed (errors result))
                                 else Inr (configuration\<lparr>value := body_value b\<rparr>))
                          else Inr configuration) of
                      Inl r \<Rightarrow> (db, r)
                    | Inr c \<Rightarrow>
                        (let c' = updateFields b (userId u) c in
                         case save rt configuration c' db of
                           Inl e \<Rightarrow> (db, updateCatch e)
                         | Inr db' \<Rightarrow>
                             (case respond rt 200 ''Configuration updated successfully'' c' of
                                Inl e \<Rightarrow> (db', updateCatch e)
                              | Inr r \<Rightarrow> (db', r))))))"

subsection \<open>DELETE /:key\<close>

definition deleteByKey :: "string + user \<Rightarrow> string \<Rightarrow> store \<Rightarrow> store \<times> response" where
  "deleteByKey caller k db =
     (case authorize [''admin''] caller of
        Inl r \<Rightarrow> (db, r)
      | Inr u \<Rightarrow>
          (case findOne k db of
             None \<Rightarrow> (db, Message 404 ''Configuration not found'')
           | Some configuration \<Rightarrow>
               if \<not> isEditable configuration
               then (db, Message 400 ''This configuration cannot be deleted'')
               else (deleteDoc (key configuration) db,
                     Message 200 ''Configuration deleted successfully'')))"

subsection \<open>POST /reset/:key\<close>

definition resetToDefault ::
  "runtime \<Rightarrow> string + user \<Rightarrow> string \<Rightarrow> store \<Rightarrow> store \<times> response" where
  "resetToDefault rt caller k db =
     (case authorize [''admin''] caller of
        Inl r \<Rightarrow> (db, r)
      | Inr u \<Rightarrow>
          (case findOne k db of
             None \<Rightarrow> (db, Message 404 ''Configuration not found'')
           | Some configuration \<Rightarrow>
               if \<not> truthy (defaultValue configuration)
               then (db, Message 400 ''No default value available for this configuration'')
               else
                 (let c' = configuration
                            \<lparr>value := defaultValue configuration,
                             lastModifiedBy := userId u,
                             version := version configuration + 1\<rparr>
                  in case save rt configuration c' db of
                       Inl e \<Rightarrow> (db, Message 500 ''Server error while resetting configuration'')
                     | Inr db' \<Rightarrow>
                         (case respond rt 200
                                 ''Configuration reset to default value successfully'' c' of
                            Inl e \<Rightarrow>
                              (db', Message 500 ''Server error while resetting configuration'')
                          | Inr r \<Rightarrow> (db', r)))))"

subsection \<open>POST /bulk-update\<close>

text \<open>
  \<^verbatim>\<open>req.body.configurations\<close> is a list of \<^verbatim>\<open>{ key, value }\<close> items, here pairs. The
  chain checks \<^verbatim>\<open>notEmpty()\<close> on each key and each value.
\<close>

definition bulkChecks :: "runtime \<Rightarrow> (string \<times> jsval) list \<Rightarrow> bool" where
  "bulkChecks rt configurations =
     list_all (\<lambda>configUpdate. notEmpty rt (JStr (fst configUpdate)) \<and>
                              notEmpty rt (snd configUpdate)) configurations"

text \<open>
  One turn of the loop, on the state made of the collection, \<^verbatim>\<open>results\<close> and
  \<^verbatim>\<open>errors\<close>. Whatever is thrown inside the turn is caught and recorded under the key.
\<close>

type_synonym bulkState = "store \<times> string list \<times> (string \<times> string) list"

definition bulkItem :: "runtime \<Rightarrow> objectId \<Rightarrow> string \<times> jsval \<Rightarrow> bulkState \<Rightarrow> bulkState" where
  "bulkItem rt uid configUpdate st =
     (case st of (db, results, errs) \<Rightarrow>
      case configUpdate of (k, v) \<Rightarrow>
        (case findOne k db of
           None \<Rightarrow> (db, results, errs @ [(k, ''Configuration not found'')])
         | Some configuration \<Rightarrow>
             if \<not> isEditable configuration
             then (db, results, errs @ [(k, ''Configuration is not editable'')])
             else
               (case validateValue rt configuration v of
                  Inl (Exn name message) \<Rightarrow> (db, results, errs @ [(k, message)])
                | Inr result \<Rightarrow>
                    if \<not> isValid result
                    then (db, results,
                          errs @ [(k, ''Validation failed: '' @ join '', '' (errors result))])
                    else
                      (let c' = configuration
                                 \<lparr>value := v,
                                  lastModifiedBy := uid,
                                  version := version configuration + 1\<rparr>
                       in case save rt configuration c' db of
                            Inl (Exn name message) \<Rightarrow> (db, results, errs @ [(k, message)])
                          | Inr db' \<Rightarrow> (db', results @ [k], errs)))))"

fun bulkLoop :: "runtime \<Rightarrow> objectId \<Rightarrow> (string \<times> jsval) list \<Rightarrow> bulkState \<Rightarrow> bulkState" where
  "bulkLoop rt uid [] st = st"
| "bulkLoop rt uid (configUpdate # rest) st = bulkLoop rt uid rest (bulkItem rt uid configUpdate st)"

definition bulkMessage :: "runtime \<Rightarrow> nat \<Rightarrow> nat \<Rightarrow> string" where
  "bulkMessage rt successful failed =
     ''Bulk update completed. '' @ numToStr rt (Fin (of_nat successful)) @ '' successful, '' @
     numToStr rt (Fin (of_nat failed)) @ '' failed.''"

definition bulkUpdate ::
  "runtime \<Rightarrow> string + user \<Rightarrow> (string \<times> jsval) list \<Rightarrow> store \<Rightarrow> store \<times> response" where
  "bulkUpdate rt caller configurations db =
     (case authorize [''admin''] caller of
        Inl r \<Rightarrow> (db, r)
      | Inr u \<Rightarrow>
          if \<not> bulkChecks rt configurations then (db, RequestErrors)
          else
            (case bulkLoop rt (userId u) configurations (db, [], []) of
               (db', results, errs) \<Rightarrow>
                 (db', BulkSummary (bulkMessage rt (length results) (length errs)) results errs)))"

subsection \<open>POST /\<close>

text \<open>
  The body of a create request. \<open>new_defaultValue\<close> is \<open>JUndefined\<close> when absent. The
  constructor fills the defaults of the schema: \<^verbatim>\<open>required\<close> is true, the array
  \<^verbatim>\<open>options\<close> is empty, \<^verbatim>\<open>version\<close> is 1; \<^verbatim>\<open>key\<close> and \<^verbatim>\<open>description\<close> are trimmed.
\<close>

record validationBody =
  new_min :: "jsnum option"
  new_max :: "jsnum option"
  new_pattern :: "string option"
  new_options :: "string list option"
  new_required :: "bool option"

record createBody =
  new_key :: string
  new_value :: jsval
  new_type :: string
  new_category :: string
  new_description :: string
  new_isPublic :: "bool option"
  new_isEditable :: "bool option"
  new_validation :: "validationBody option"
  new_defaultValue :: jsval
  new_tags :: "string list option"

definition newValidation :: "validationBody option \<Rightarrow> validationRules" where
  "newValidation vb =
     (case vb of
        None \<Rightarrow> \<lparr>min_v = None, max_v = None, pattern = None, options = Some [], required = True\<rparr>
      | Some w \<Rightarrow>
          \<lparr>min_v = new_min w, max_v = new_max w, pattern = new_pattern w,
           options = Some (case new_options w of None \<Rightarrow> [] | Some os \<Rightarrow> os),
           required = (case new_required w of None \<Rightarrow> True | Some r \<Rightarrow> r)\<rparr>)"


definition newConfiguration :: "createBody \<Rightarrow> cfgType \<Rightarrow> objectId \<Rightarrow> configuration" where
  "newConfiguration b ty uid =
     \<lparr>key = trim (new_key b),
      value = new_value b,
      type = ty,
      category = new_category b,
      description = trim (new_description b),
      isPublic = (case new_isPublic b of None \<Rightarrow> False | Some p \<Rightarrow> p),
      isEditable = (case new_isEditable b of None \<Rightarrow> True | Some e \<Rightarrow> e),
      validation = newValidation (new_validation b),
      defaultValue = new_defaultValue b,
      lastModifiedBy = uid,
      tags = (case new_tags b of None \<Rightarrow> [] | Some t \<Rightarrow> t),
      version = 1\<rparr>"

definition createCatch :: "exn \<Rightarrow> response" where
  "createCatch e =
     (case e of Exn name message \<Rightarrow>
        if name = ''ValidationError'' then Message 400 message
        else Message 500 ''Server error while creating configuration'')"


subsection \<open>GET /public\<close>






section \<open>Sequences of mutating requests\<close>

text \<open>
  The mutating requests of the API, each with the outcome of \<^verbatim>\<open>auth\<close> for its caller,
  and a run of them one after the other. \<open>applied k r resp\<close> is the number of successful
  mutations of the key \<open>k\<close> that the response \<open>resp\<close> to the request \<open>r\<close> reports: one
  for an update or a reset answered with the configuration, and one for each entry of the
  \<^verbatim>\<open>results\<close> of a bulk update, when the key of the request or of the entry is \<open>k\<close> up to
  the trimming of the lookup.
\<close>

datatype request =
    Update "string + user" string updateBody
  | Bulk "string + user" "(string \<times> jsval) list"
  | Reset "string + user" string

fun handle :: "runtime \<Rightarrow> request \<Rightarrow> store \<Rightarrow> store \<times> response" where
  "handle rt (Update caller k b) db = updateByKey rt caller k b db"
| "handle rt (Bulk caller configurations) db = bulkUpdate rt caller configurations db"
| "handle rt (Reset caller k) db = resetToDefault rt caller k db"

fun applied :: "string \<Rightarrow> request \<Rightarrow> response \<Rightarrow> nat" where
  "applied k (Update caller k' b) (WithConfiguration n m c) = (if trim k' = trim k then 1 else 0)"
| "applied k (Reset caller k') (WithConfiguration n m c) = (if trim k' = trim k then 1 else 0)"
| "applied k (Bulk caller configurations) (BulkSummary m results errs) =
     length (filter (\<lambda>k'. trim k' = trim k) results)"
| "applied k r resp = 0"

fun runAll :: "runtime \<Rightarrow> string \<Rightarrow> request list \<Rightarrow> store \<Rightarrow> store \<times> nat" where
  "runAll rt k [] db = (db, 0)"
| "runAll rt k (r # rs) db =
     (case handle rt r db of (db1, resp) \<Rightarrow>
      case runAll rt k rs db1 of (db2, n) \<Rightarrow> (db2, applied k r resp + n))"

section \<open>Example data\<close>

text \<open>
  A runtime to run the model on concrete inputs. It interprets the builtins on the inputs
  that the examples below use: \<^verbatim>\<open>Number\<close> on the empty string and on strings of decimal
  digits, \<^verbatim>\<open>String\<close> on natural numbers, \<^verbatim>\<open>new RegExp\<close> on patterns made of letters and
  digits only (each stands for itself), \<^verbatim>\<open>JSON.parse\<close> on the three literals (any other
  string of the examples is malformed JSON), \<^verbatim>\<open>notEmpty()\<close> on scalars, \<^verbatim>\<open>includes\<close> on
  strings. It is not meant as a description of the builtins elsewhere, and no general
  theorem depends on it.
\<close>

fun showNat :: "nat \<Rightarrow> string" where
  "showNat n =
     (if n < 10 then [char_of (48 + n)] else showNat (n div 10) @ [char_of (48 + n mod 10)])"

declare showNat.simps [simp del]

definition isDigit :: "char \<Rightarrow> bool" where
  "isDigit c = (CHR ''0'' \<le> c \<and> c \<le> CHR ''9'')"

definition isAlnum :: "char \<Rightarrow> bool" where
  "isAlnum c =
     (isDigit c \<or> (CHR ''a'' \<le> c \<and> c \<le> CHR ''z'') \<or> (CHR ''A'' \<le> c \<and> c \<le> CHR ''Z''))"

definition readNat :: "string \<Rightarrow> nat" where
  "readNat s = foldl (\<lambda>n c. 10 * n + (of_char c - 48)) 0 s"

definition exampleRuntime :: runtime where
  "exampleRuntime =
     \<lparr>strToNum = (\<lambda>s. if list_all isDigit s then Fin (of_nat (readNat s)) else NaN),
      numToStr = (\<lambda>n. case n of
                         NaN \<Rightarrow> ''NaN''
                       | NegInf \<Rightarrow> ''-Infinity''
                       | PosInf \<Rightarrow> ''Infinity''
                       | Fin q \<Rightarrow> showNat (nat \<lfloor>q\<rfloor>)),
      regExp = (\<lambda>p. if list_all isAlnum p then Inr (foldr (\<lambda>c r. Seq (Chr c) r) p Eps)
                     else Inl ''Invalid regular expression''),
      jsonParse = (\<lambda>s. if s = ''null'' then Inr JNull
                        else if s = ''true'' then Inr (JBool True)
                        else if s = ''false'' then Inr (JBool False)
                        else Inl ''Unexpected token''),
      notEmpty = (\<lambda>v. case v of
                         JUndefined \<Rightarrow> False
                       | JNull \<Rightarrow> False
                       | JStr s \<Rightarrow> s \<noteq> []
                       | JNum n \<Rightarrow> n \<noteq> NaN
                       | JArr xs \<Rightarrow> xs \<noteq> []
                       | _ \<Rightarrow> True),
      includes = (\<lambda>opts v. case v of JStr s \<Rightarrow> s \<in> set opts | _ \<Rightarrow> False),
      validationMessage = (\<lambda>paths. ''Configuration validation failed: '' @ join '', '' paths)\<rparr>"

definition admin :: "string + user" where
  "admin = Inr \<lparr>userId = ''admin-2'', role = ''admin''\<rparr>"

text \<open>Entries of \<^verbatim>\<open>backend/scripts/seedConfigurations.js\<close>, as the seed script stores them.\<close>

definition seeded ::
  "string \<Rightarrow> jsval \<Rightarrow> cfgType \<Rightarrow> string \<Rightarrow> string \<Rightarrow> validationRules \<Rightarrow> jsval \<Rightarrow> string list
     \<Rightarrow> configuration" where
  "seeded k v ty cat d vd dv ts =
     \<lparr>key = k, value = v, type = ty, category = cat, description = d, isPublic = True,
      isEditable = True, validation = vd, defaultValue = dv, lastModifiedBy = ''admin-1'',
      tags = ts, version = 1\<rparr>"

definition rules :: "jsnum option \<Rightarrow> jsnum option \<Rightarrow> string option \<Rightarrow> validationRules" where
  "rules lo hi p = \<lparr>min_v = lo, max_v = hi, pattern = p, options = Some [], required = True\<rparr>"

definition site_name :: configuration where
  "site_name =
     seeded ''site_name'' (JStr ''EduManage'') TString ''system''
       ''Name of the educational management system''
       (rules (Some (Fin 1)) (Some (Fin 100)) None) (JStr ''EduManage'') [''branding'', ''ui'']"

definition maintenance_mode :: configuration where
  "maintenance_mode =
     seeded ''maintenance_mode'' (JBool False) TBoolean ''system''
       ''Enable maintenance mode to restrict access''
       (rules None None None) (JBool False) [''maintenance'', ''system'']"

definition assignment_late_penalty :: configuration where
  "assignment_late_penalty =
     seeded ''assignment_late_penalty'' (JNum (Fin 10)) TNumber ''assignment''
       ''Late submission penalty percentage''
       (rules (Some (Fin 0)) (Some (Fin 100)) None) (JNum (Fin 10)) [''assignment'', ''grading'']"



section \<open>The example runtime on its inputs\<close>

lemma example_jsonParse:
  "jsonParse exampleRuntime s =
     (if s = ''null'' then Inr JNull
      else if s = ''true'' then Inr (JBool True)
      else if s = ''false'' then Inr (JBool False)
      else Inl ''Unexpected token'')"
  by (simp add: exampleRuntime_def)



section \<open>formattedValue\<close>

text \<open>
  C10. The projection \<^verbatim>\<open>formattedValue\<close> is not total. For an entry of type
  \<^verbatim>\<open>json\<close> whose stored value is a string that \<^verbatim>\<open>JSON.parse\<close> refuses, reading it
  throws the SyntaxError of the parser instead of returning a value; for an entry of type
  \<^verbatim>\<open>array\<close> it returns the empty array on every stored value that is not an array, and
  never throws.
\<close>

theorem formattedValue_json_throws_array_total:
  "(type c = TJson \<and> value c = JStr s \<and> jsonParse rt s = Inl msg
      \<longrightarrow> formattedValue rt c = Inl (Exn ''SyntaxError'' msg)) \<and>
   (type c = TArray \<and> (\<forall>xs. value c \<noteq> JArr xs)
      \<longrightarrow> formattedValue rt c = Inr (JArr []))"
  by (cases "value c") (simp_all add: formattedValue_def)

text \<open>
  C10 on two entries: a \<^verbatim>\<open>json\<close> entry storing the string \<^verbatim>\<open>{bad\<close>, and an
  \<^verbatim>\<open>array\<close> entry storing the string \<^verbatim>\<open>pdf\<close>.
\<close>

theorem formattedValue_json_throws_array_total_witness:
  "formattedValue exampleRuntime
     (maintenance_mode\<lparr>type := TJson, value := JStr ''{bad''\<rparr>) =
     Inl (Exn ''SyntaxError'' ''Unexpected token'') \<and>
   formattedValue exampleRuntime
     (maintenance_mode\<lparr>type := TArray, value := JStr ''pdf''\<rparr>) = Inr (JArr [])"
  using formattedValue_json_throws_array_total
    [of "maintenance_mode\<lparr>type := TJson, value := JStr ''{bad''\<rparr>" "''{bad''" exampleRuntime
        "''Unexpected token''"]
    formattedValue_json_throws_array_total
    [of "maintenance_mode\<lparr>type := TArray, value := JStr ''pdf''\<rparr>" "''x''" exampleRuntime "''x''"]
  by (simp add: example_jsonParse)

section \<open>validateValue on numbers\<close>





section \<open>validateValue on strings\<close>






section \<open>The collection and the middlewares\<close>

lemma trim_example_keys [simp]:
  "trim ''site_name'' = ''site_name''"
  "trim ''maintenance_mode'' = ''maintenance_mode''"
  "trim ''assignment_late_penalty'' = ''assignment_late_penalty''"
  "trim ''no_such_key'' = ''no_such_key''"
  by (simp_all add: trim_def isSpace_def)

lemma lookup_key: "lookup k db = Some c \<Longrightarrow> key c = k"
  by (auto simp add: lookup_def find_Some_iff)

lemma findOne_key: "findOne k db = Some c \<Longrightarrow> key c = trim k"
  by (simp add: findOne_def lookup_key)



lemma validateValue_same_rules:
  assumes "type c' = type c" and "validation c' = validation c"
  shows "validateValue rt c' v = validateValue rt c v"
  using assms by (simp add: validateValue_def Let_def split: option.splits sum.splits)


lemma validateValue_json:
  assumes "type c = TJson" and "truthy v"
  shows "validateValue rt c v = Inr \<lparr>isValid = True, errors = []\<rparr>"
  using assms
  by (cases v) (auto simp add: validateValue_def requiredErrors_def Let_def split: option.splits)

lemma formattedValue_not_json:
  assumes "type c \<noteq> TJson"
  shows "\<exists>v. formattedValue rt c = Inr v"
  using assms by (cases "type c"; cases "value c") (simp_all add: formattedValue_def)


lemma respond_formatted:
  "formattedValue rt c = Inr v \<Longrightarrow> respond rt n m c = Inr (WithConfiguration n m c)"
  by (simp add: respond_def)

lemma respond_throws:
  "formattedValue rt c = Inl e \<Longrightarrow> respond rt n m c = Inl e"
  by (simp add: respond_def)

lemma authorize_example_admin:
  "authorize [''admin''] admin = Inr \<lparr>userId = ''admin-2'', role = ''admin''\<rparr>"
  by (simp add: admin_def authorize_def)

section \<open>Update by key\<close>




section \<open>Reset to default\<close>

lemma schemaErrors_reset:
  assumes "schemaErrors c = []" and "truthy d"
  shows "schemaErrors (c\<lparr>value := d, lastModifiedBy := uid, version := n\<rparr>) = []"
  using assms by (auto simp add: schemaErrors_def split: if_splits)

lemma preSave_reset:
  "preSave rt m (c\<lparr>value := d, lastModifiedBy := uid, version := n\<rparr>) =
     (if m then
        (case validateValue rt c d of
           Inl e \<Rightarrow> Some e
         | Inr result \<Rightarrow>
             if \<not> isValid result
             then Some (Exn ''Error'' (''Validation failed: '' @ join '', '' (errors result)))
             else None)
      else None)"
  by (simp add: preSave_def
        validateValue_same_rules [of "c\<lparr>value := d, lastModifiedBy := uid, version := n\<rparr>" c])





text \<open>
  The guard of reset is a truthiness test. The seeded \<^verbatim>\<open>maintenance_mode\<close> has the
  configured default \<^verbatim>\<open>false\<close>; switched on and then reset, it is answered with the 400
  of a missing default and stays on. (The amended C2 says nothing about such defaults.)
\<close>

lemma resetToDefault_falsy_default:
  "defaultValue maintenance_mode = JBool False \<and>
   resetToDefault exampleRuntime admin ''maintenance_mode''
     [maintenance_mode\<lparr>value := JBool True\<rparr>] =
     ([maintenance_mode\<lparr>value := JBool True\<rparr>],
      Message 400 ''No default value available for this configuration'')"
  by (simp add: resetToDefault_def authorize_example_admin findOne_def lookup_def maintenance_mode_def
        seeded_def)

lemma invalid_not_json:
  assumes "validateValue rt c v = Inr res" and "\<not> isValid res" and "truthy v"
  shows "type c \<noteq> TJson"
  using assms validateValue_json [of c v rt] by auto

text \<open>
  C6, as amended. The handler of reset does not call \<^verbatim>\<open>validateValue\<close> itself, but it
  writes through \<^verbatim>\<open>save\<close>, whose hook validates \<^verbatim>\<open>value\<close> whenever the assignment
  changed it. So for an admin caller and an existing entry whose truthy \<^verbatim>\<open>defaultValue\<close>
  is refused by the current rules: when the default differs from the stored value, reset
  answers 500 and stores nothing; only when the default is deeply equal to the stored
  value (nothing to reintroduce) is the entry written back without validation, with the
  caller and the next version.
\<close>

theorem resetToDefault_revalidates:
  assumes "authorize [''admin''] caller = Inr u"
    and "findOne k db = Some c"
    and "truthy (defaultValue c)"
    and "validateValue rt c (defaultValue c) = Inr res"
    and "\<not> isValid res"
  shows "(\<not> deepEqual (defaultValue c) (value c) \<longrightarrow>
            resetToDefault rt caller k db =
              (db, Message 500 ''Server error while resetting configuration'')) \<and>
         (deepEqual (defaultValue c) (value c) \<and> schemaErrors c = [] \<longrightarrow>
            resetToDefault rt caller k db =
              (replaceDoc (c\<lparr>lastModifiedBy := userId u, version := version c + 1\<rparr>) db,
               WithConfiguration 200 ''Configuration reset to default value successfully''
                 (c\<lparr>lastModifiedBy := userId u, version := version c + 1\<rparr>)))"
proof -
  let ?c' = "c\<lparr>value := defaultValue c, lastModifiedBy := userId u, version := version c + 1\<rparr>"
  have s: "schemaErrors c = [] \<Longrightarrow> schemaErrors ?c' = []"
    using schemaErrors_reset [OF _ assms(3)] by simp
  have "type ?c' \<noteq> TJson"
    using invalid_not_json [OF assms(4) assms(5) assms(3)] by simp
  then obtain v where v: "formattedValue rt ?c' = Inr v"
    using formattedValue_not_json by blast
  have r: "respond rt 200 ''Configuration reset to default value successfully'' ?c' =
             Inr (WithConfiguration 200 ''Configuration reset to default value successfully'' ?c')"
    using v by (rule respond_formatted)
  have a: "\<not> deepEqual (defaultValue c) (value c) \<longrightarrow>
            resetToDefault rt caller k db =
              (db, Message 500 ''Server error while resetting configuration'')"
    using assms
    by (simp add: resetToDefault_def Let_def save_def preSave_reset isModified_def
          split: list.splits)
  have b: "deepEqual (defaultValue c) (value c) \<and> schemaErrors c = [] \<longrightarrow>
            resetToDefault rt caller k db =
              (replaceDoc (c\<lparr>lastModifiedBy := userId u, version := version c + 1\<rparr>) db,
               WithConfiguration 200 ''Configuration reset to default value successfully''
                 (c\<lparr>lastModifiedBy := userId u, version := version c + 1\<rparr>))"
  proof
    assume h: "deepEqual (defaultValue c) (value c) \<and> schemaErrors c = []"
    then have e: "?c' = c\<lparr>lastModifiedBy := userId u, version := version c + 1\<rparr>"
      by (simp add: deepEqual_def)
    have m: "\<not> isModified c ?c'"
      using h by (simp add: isModified_def)
    have "resetToDefault rt caller k db =
            (replaceDoc ?c' db,
             WithConfiguration 200 ''Configuration reset to default value successfully'' ?c')"
      using assms(1,2,3) s h m r
      by (simp add: resetToDefault_def Let_def save_def preSave_def del: One_nat_def)
    with e show "resetToDefault rt caller k db =
              (replaceDoc (c\<lparr>lastModifiedBy := userId u, version := version c + 1\<rparr>) db,
               WithConfiguration 200 ''Configuration reset to default value successfully''
                 (c\<lparr>lastModifiedBy := userId u, version := version c + 1\<rparr>))"
      by simp
  qed
  from a b show ?thesis by blast
qed

text \<open>
  C6 on \<^verbatim>\<open>assignment_late_penalty\<close> (max 100) holding 15 with the default 150: reset is
  refused and 15 stays.
\<close>

theorem resetToDefault_revalidates_witness:
  "resetToDefault exampleRuntime admin ''assignment_late_penalty''
     [assignment_late_penalty\<lparr>value := JNum (Fin 15), defaultValue := JNum (Fin 150)\<rparr>] =
     ([assignment_late_penalty\<lparr>value := JNum (Fin 15), defaultValue := JNum (Fin 150)\<rparr>],
      Message 500 ''Server error while resetting configuration'')"
proof -
  let ?c = "assignment_late_penalty\<lparr>value := JNum (Fin 15), defaultValue := JNum (Fin 150)\<rparr>"
  let ?res = "\<lparr>isValid = False,
               errors = [''Value must be at most '' @ numToStr exampleRuntime (Fin 100)]\<rparr>"
  have 2: "findOne ''assignment_late_penalty'' [?c] = Some ?c"
    by (simp add: findOne_def lookup_def assignment_late_penalty_def seeded_def)
  have 3: "truthy (defaultValue ?c)" by simp
  have 4: "validateValue exampleRuntime ?c (defaultValue ?c) = Inr ?res"
    by (simp add: validateValue_def requiredErrors_def numberErrors_def Let_def
          assignment_late_penalty_def seeded_def rules_def)
  have 5: "\<not> isValid ?res" by simp
  have 6: "\<not> deepEqual (defaultValue ?c) (value ?c)"
    by (simp add: deepEqual_def)
  show ?thesis
    using resetToDefault_revalidates [OF authorize_example_admin 2 3 4 5] 6 by blast
qed

text \<open>
  C6 as first stated (a default that violates the current rules is still persisted by
  reset) fails: \<^verbatim>\<open>site_name\<close> under the pattern \<^verbatim>\<open>abc\<close> holds \<^verbatim>\<open>abc\<close>, its default
  \<^verbatim>\<open>EduManage\<close> does not match, and reset leaves the collection as it was.
\<close>

theorem resetToDefault_persists_invalid_counterexample:
  "validateValue exampleRuntime
     (site_name\<lparr>value := JStr ''abc'', defaultValue := JStr ''EduManage'',
                validation := rules None None (Some ''abc'')\<rparr>) (JStr ''EduManage'') =
     Inr \<lparr>isValid = False, errors = [''Value does not match required pattern'']\<rparr> \<and>
   resetToDefault exampleRuntime admin ''site_name''
     [site_name\<lparr>value := JStr ''abc'', defaultValue := JStr ''EduManage'',
                validation := rules None None (Some ''abc'')\<rparr>] =
     ([site_name\<lparr>value := JStr ''abc'', defaultValue := JStr ''EduManage'',
                 validation := rules None None (Some ''abc'')\<rparr>],
      Message 500 ''Server error while resetting configuration'')"
  by code_simp

text \<open>
  C1. An entry with \<^verbatim>\<open>isEditable = false\<close> is to be left unchanged by every mutating
  operation. Reset does not look at \<^verbatim>\<open>isEditable\<close>: on \<^verbatim>\<open>site_name\<close> made not
  editable and holding \<^verbatim>\<open>Campus\<close>, reset by an admin succeeds and stores the default,
  the caller and version 2.
\<close>

theorem resetToDefault_ignores_isEditable:
  "isEditable (site_name\<lparr>value := JStr ''Campus'', isEditable := False\<rparr>) = False \<and>
   resetToDefault exampleRuntime admin ''site_name''
     [site_name\<lparr>value := JStr ''Campus'', isEditable := False\<rparr>] =
     ([site_name\<lparr>value := JStr ''EduManage'', isEditable := False,
                 lastModifiedBy := ''admin-2'', version := 2\<rparr>],
      WithConfiguration 200 ''Configuration reset to default value successfully''
        (site_name\<lparr>value := JStr ''EduManage'', isEditable := False,
                   lastModifiedBy := ''admin-2'', version := 2\<rparr>))"
  by (simp add: resetToDefault_def authorize_example_admin findOne_def lookup_def site_name_def
        seeded_def rules_def Let_def save_def schemaErrors_def categories_def preSave_def
        isModified_def deepEqual_def validateValue_def requiredErrors_def stringErrors_def
        patternErrors_def lengthErrors_def respond_def formattedValue_def)

text \<open>
  The other three mutating operations do check \<^verbatim>\<open>isEditable\<close> and leave the collection
  as it was.
\<close>

lemma not_editable_guarded:
  assumes "findOne k db = Some c" and "\<not> isEditable c"
  shows "fst (updateByKey rt caller k b db) = db"
    and "fst (deleteByKey caller k db) = db"
    and "bulkItem rt uid (k, v) (db, rs, es) = (db, rs, es @ [(k, ''Configuration is not editable'')])"
  using assms
  by (simp_all add: updateByKey_def deleteByKey_def bulkItem_def split: sum.splits)

section \<open>Bulk update\<close>









section \<open>The version counter\<close>


lemma updateFields_key [simp]: "key (updateFields b uid c) = key c"
  by (simp add: updateFields_def Let_def split: option.splits)

lemma updateFields_type [simp]: "type (updateFields b uid c) = type c"
  by (simp add: updateFields_def Let_def split: option.splits)

lemma updateFields_version [simp]: "version (updateFields b uid c) = version c + 1"
  by (simp add: updateFields_def Let_def split: option.splits)

lemma updateCatch_Message [simp]: "updateCatch e \<noteq> WithConfiguration n m d"
  by (cases e) (simp add: updateCatch_def)













lemma newConfiguration_version [simp]: "version (newConfiguration b ty uid) = 1"
  by (simp add: newConfiguration_def)

lemma newConfiguration_key [simp]: "key (newConfiguration b ty uid) = trim (new_key b)"
  by (simp add: newConfiguration_def)


lemma createCatch_Message [simp]: "createCatch e \<noteq> WithConfiguration n m d"
  by (cases e) (simp add: createCatch_def)








text \<open>
  The key of a request is trimmed by the query: an update sent to \<^verbatim>\<open>' site_name '\<close> is a
  successful mutation of \<^verbatim>\<open>site_name\<close>.
\<close>

lemma example_padded_key:
  "runAll exampleRuntime ''site_name''
     [Update admin '' site_name ''
        \<lparr>body_value = JStr ''Campus'', body_description = None, body_isPublic = None,
         body_tags = None\<rparr>]
     [site_name] =
     ([site_name\<lparr>value := JStr ''Campus'', lastModifiedBy := ''admin-2'', version := 2\<rparr>], 1)"
  by code_simp

section \<open>The public endpoint\<close>











end
